theory Spec2Isabelle
  imports Main "HOL-Library.Char_ord" "HOL-Library.List_Lexorder" "HOL-Library.Multiset"
    "HOL-Library.Sublist"
begin

section \<open>The store of \<^verbatim>\<open>lib6.py\<close>: four tables and their row counters\<close>

text \<open>
  The class \<^verbatim>\<open>Database\<close> of \<^verbatim>\<open>src/lib6.py\<close> keeps four SQLite tables. A table is
  modelled as the list of its rows in rowid order (every \<^verbatim>\<open>id\<close> column is
  \<^verbatim>\<open>INTEGER PRIMARY KEY AUTOINCREMENT\<close>, so rowid order is insertion order), together with
  the counter that SQLite keeps for it in \<^verbatim>\<open>sqlite_sequence\<close>.

  Column types follow the data model of the callers: ids and counts are integers
  (\<open>int\<close>), text columns are strings, the two nullable member columns and the two
  nullable date columns are options. A \<open>char\<close> stands for one character of ASCII text,
  which SQLite holds in one byte; text is compared by character code, as SQLite's BINARY
  collation does.

  The integers that callers pass to a method are taken to fit the 64 bits of an SQLite
  \<^verbatim>\<open>INTEGER\<close>. The arithmetic that \<^verbatim>\<open>issue_book\<close> and \<^verbatim>\<open>return_book\<close> do on
  \<^verbatim>\<open>available_count\<close> inside SQLite is modelled with its overflow, see \<open>sql_plus_one\<close>
  and \<open>sql_minus_one\<close>, and so is the length limit of a \<^verbatim>\<open>LIKE\<close> pattern, see
  \<open>list_books\<close>.
\<close>

record user =
  u_id :: int
  u_username :: string
  u_password :: string
  u_role :: string

record book =
  b_id :: int
  b_title :: string
  b_author :: string
  b_genre :: string
  b_available_count :: int

record member =
  m_id :: int
  m_name :: string
  m_email :: string
  m_password :: string
  m_membership_type :: "string option"
  m_membership_expiry :: "string option"

record trans =
  t_id :: int
  t_user_id :: int
  t_book_id :: int
  t_issue_date :: string
  t_due_date :: "string option"
  t_return_date :: "string option"
  t_returned :: int

record db =
  users :: "user list"
  books :: "book list"
  members :: "member list"
  transactions :: "trans list"
  seq_users :: int
  seq_books :: int
  seq_members :: int
  seq_transactions :: int

text \<open>Second components of the \<^verbatim>\<open>(ok, msg)\<close> tuples the methods return.\<close>

datatype pyval = PNone | PInt int | PStr string

text \<open>The exceptions a method can raise or catch.\<close>

datatype exn = IntegrityError | OverflowError

type_synonym reply = "exn + (bool \<times> pyval)"

text \<open>Python's truth value of an optional string: \<^verbatim>\<open>None\<close> and \<^verbatim>\<open>""\<close> are false.\<close>

fun truthy :: "string option \<Rightarrow> bool" where
  "truthy None = False"
| "truthy (Some s) = (s \<noteq> [])"

text \<open>
  The rowid an \<^verbatim>\<open>AUTOINCREMENT\<close> table gives to a new row: one more than the largest of
  the table's counter and the rowids present.
\<close>

definition next_rowid :: "int \<Rightarrow> int list \<Rightarrow> int" where
  "next_rowid sq ids = Max (insert sq (set ids)) + 1"

definition empty_db :: db where
  "empty_db = \<lparr>users = [], books = [], members = [], transactions = [],
     seq_users = 0, seq_books = 0, seq_members = 0, seq_transactions = 0\<rparr>"

subsection \<open>Users\<close>

text \<open>
  \<^verbatim>\<open>INSERT INTO users (username,password,role)\<close> under the constraints of the table:
  \<^verbatim>\<open>username UNIQUE\<close> and \<^verbatim>\<open>CHECK(role IN ('admin','user'))\<close>. A violated constraint
  raises \<^verbatim>\<open>sqlite3.IntegrityError\<close> and writes nothing.
\<close>

definition insert_user :: "string \<Rightarrow> string \<Rightarrow> string \<Rightarrow> db \<Rightarrow> exn + (int \<times> db)" where
  "insert_user un pw r s =
     (if r \<in> {''admin'', ''user''} \<and> un \<notin> set (map u_username (users s))
      then (let i = next_rowid (seq_users s) (map u_id (users s)) in
        Inr (i, s\<lparr>users := users s @ [\<lparr>u_id = i, u_username = un, u_password = pw, u_role = r\<rparr>],
                   seq_users := i\<rparr>))
      else Inl IntegrityError)"

text \<open>\<^verbatim>\<open>create_tables\<close> and \<^verbatim>\<open>migrate_schema\<close> change the schema only; rows stay as they are.\<close>

definition create_tables :: "db \<Rightarrow> db" where
  "create_tables s = s"

definition migrate_schema :: "db \<Rightarrow> db" where
  "migrate_schema s = s"

definition ensure_admin :: "db \<Rightarrow> exn + db" where
  "ensure_admin s =
     (case find (\<lambda>u. u_role u = ''admin'') (users s) of
        Some a \<Rightarrow> Inr s
      | None \<Rightarrow> (case insert_user ''admin'' ''admin'' ''admin'' s of
                  Inl e \<Rightarrow> Inl e
                | Inr (i, s') \<Rightarrow> Inr s'))"

text \<open>
  \<^verbatim>\<open>Database.__init__\<close>: the argument is the store found at the path, \<open>None\<close> when no
  file exists there (\<^verbatim>\<open>new_db\<close>).
\<close>

definition Database_init :: "db option \<Rightarrow> exn + db" where
  "Database_init existing =
     (case existing of
        None \<Rightarrow> ensure_admin (migrate_schema (create_tables empty_db))
      | Some s \<Rightarrow> Inr (migrate_schema (create_tables s)))"

definition add_user :: "string \<Rightarrow> string \<Rightarrow> string \<Rightarrow> db \<Rightarrow> reply \<times> db" where
  "add_user un pw r s =
     (case insert_user un pw r s of
        Inr (i, s') \<Rightarrow> (Inr (True, PInt i), s')
      | Inl IntegrityError \<Rightarrow> (Inr (False, PStr ''Username already exists''), s)
      | Inl OverflowError \<Rightarrow> (Inl OverflowError, s))"


definition get_user_by_username :: "string \<Rightarrow> db \<Rightarrow> user option" where
  "get_user_by_username un s = find (\<lambda>u. u_username u = un) (users s)"

subsection \<open>Books\<close>


definition update_book :: "int \<Rightarrow> string \<Rightarrow> string \<Rightarrow> string \<Rightarrow> int \<Rightarrow> db \<Rightarrow> db" where
  "update_book bid ttl auth gen avail s =
     s\<lparr>books := map (\<lambda>b. if b_id b = bid
                          then b\<lparr>b_title := ttl, b_author := auth, b_genre := gen,
                                 b_available_count := avail\<rparr>
                          else b) (books s)\<rparr>"

definition delete_book :: "int \<Rightarrow> db \<Rightarrow> reply \<times> db" where
  "delete_book bid s =
     (if length (filter (\<lambda>t. t_book_id t = bid \<and> t_returned t = 0) (transactions s)) > 0
      then (Inr (False, PStr ''Cannot delete book with active issues''), s)
      else (Inr (True, PNone), s\<lparr>books := filter (\<lambda>b. b_id b \<noteq> bid) (books s)\<rparr>))"

definition get_book :: "int \<Rightarrow> db \<Rightarrow> book option" where
  "get_book bid s = find (\<lambda>b. b_id b = bid) (books s)"





subsection \<open>Members\<close>

text \<open>
  \<^verbatim>\<open>CHECK(membership_type IN ('regular','premium','student'))\<close>: a NULL passes, as in SQL.
\<close>

fun membership_type_ok :: "string option \<Rightarrow> bool" where
  "membership_type_ok None = True"
| "membership_type_ok (Some ty) = (ty \<in> {''regular'', ''premium'', ''student''})"

text \<open>
  \<^verbatim>\<open>add_member\<close>: the member row is inserted and committed inside the \<^verbatim>\<open>try\<close>; the call
  of \<^verbatim>\<open>add_user\<close> follows it, and its result is dropped.
\<close>

definition add_member ::
  "string \<Rightarrow> string \<Rightarrow> string \<Rightarrow> string option \<Rightarrow> string option \<Rightarrow> db \<Rightarrow> reply \<times> db" where
  "add_member nm email pw mtype expiry s =
     (if membership_type_ok mtype \<and> email \<notin> set (map m_email (members s))
      then (let i = next_rowid (seq_members s) (map m_id (members s));
                s1 = s\<lparr>members := members s @
                         [\<lparr>m_id = i, m_name = nm, m_email = email, m_password = pw,
                           m_membership_type = mtype, m_membership_expiry = expiry\<rparr>],
                       seq_members := i\<rparr>
            in (case add_user email pw ''user'' s1 of
                  (Inl e, s2) \<Rightarrow> (Inl e, s2)
                | (Inr r, s2) \<Rightarrow> (Inr (True, PNone), s2)))
      else (Inr (False, PStr ''Member email already exists''), s))"


text \<open>
  \<^verbatim>\<open>delete_member\<close>. The count is over the transactions whose \<^verbatim>\<open>user_id\<close> equals the
  nested scalar subqueries' value; a subquery with no row is NULL and equals nothing.
\<close>

definition delete_member :: "int \<Rightarrow> db \<Rightarrow> reply \<times> db" where
  "delete_member mid s =
     (let r = find (\<lambda>m. m_id m = mid) (members s);
          uid = (case r of
                   None \<Rightarrow> None
                 | Some m \<Rightarrow> map_option u_id (find (\<lambda>u. u_username u = m_email m) (users s)));
          cnt = (case uid of
                   None \<Rightarrow> 0
                 | Some i \<Rightarrow> length (filter (\<lambda>t. t_user_id t = i \<and> t_returned t = 0)
                                        (transactions s)))
      in if cnt > 0
         then (Inr (False, PStr ''Member has active issued books''), s)
         else (let users' = (if truthy (map_option m_email r)
                             then filter (\<lambda>u. u_username u \<noteq> m_email (the r)) (users s)
                             else users s)
               in (Inr (True, PNone),
                   s\<lparr>users := users', members := filter (\<lambda>m. m_id m \<noteq> mid) (members s)\<rparr>)))"

definition list_members :: "db \<Rightarrow> member list" where
  "list_members s = members s"

definition get_member :: "int \<Rightarrow> db \<Rightarrow> member option" where
  "get_member mid s = find (\<lambda>m. m_id m = mid) (members s)"

subsection \<open>Transactions\<close>

text \<open>
  The clock and the date arithmetic are outside the repository. \<^verbatim>\<open>issue_book\<close> takes
  \<open>today\<close>, the value of \<^verbatim>\<open>datetime.date.today().isoformat()\<close>, and \<open>due\<close>, which maps
  \<^verbatim>\<open>days\<close> to the ISO text of today plus that many days, \<open>None\<close> when the date leaves the
  range of \<^verbatim>\<open>datetime.date\<close> (\<^verbatim>\<open>OverflowError\<close>).
\<close>

text \<open>
  \<^verbatim>\<open>available_count\<close> is an \<^verbatim>\<open>INTEGER\<close> column, and SQLite holds an integer in 64 bits,
  signed. When \<^verbatim>\<open>available_count+1\<close> or \<^verbatim>\<open>available_count-1\<close> leaves that range, SQLite
  computes in floating point: the result is the \<^verbatim>\<open>REAL\<close> nearest to the exact value, the
  column keeps it as a \<^verbatim>\<open>REAL\<close>, and adding 1 to a \<^verbatim>\<open>REAL\<close> of that size, or subtracting
  1 from it, gives the same \<^verbatim>\<open>REAL\<close> again.

  In the model a count from \<open>- 2 ^ 63\<close> to \<open>2 ^ 63 - 1\<close> is that integer, and a count
  outside this range stands for the \<^verbatim>\<open>REAL\<close> nearest to it: \<open>2 ^ 63\<close> is what
  \<^verbatim>\<open>available_count+1\<close> gives at \<open>2 ^ 63 - 1\<close>. Python reads such a count as a float and
  compares it with 0 by its value.
\<close>

definition int64 :: "int \<Rightarrow> bool" where
  "int64 v = (- (2 ^ 63) \<le> v \<and> v < 2 ^ 63)"

definition sql_plus_one :: "int \<Rightarrow> int" where
  "sql_plus_one v = (if int64 v then v + 1 else v)"

definition sql_minus_one :: "int \<Rightarrow> int" where
  "sql_minus_one v = (if int64 v then v - 1 else v)"

definition issue_book ::
  "string \<Rightarrow> (int \<Rightarrow> string option) \<Rightarrow> string \<Rightarrow> int \<Rightarrow> int \<Rightarrow> db \<Rightarrow> reply \<times> db" where
  "issue_book today due un bid days s =
     (case get_user_by_username un s of
        None \<Rightarrow> (Inr (False, PStr ''User not found''), s)
      | Some usr \<Rightarrow>
         (case find (\<lambda>b. b_id b = bid) (books s) of
            None \<Rightarrow> (Inr (False, PStr ''Book not found''), s)
          | Some b \<Rightarrow>
             if b_available_count b \<le> 0
             then (Inr (False, PStr ''No copies available''), s)
             else (case due days of
                     None \<Rightarrow> (Inl OverflowError, s)
                   | Some due_date \<Rightarrow>
                      (let i = next_rowid (seq_transactions s) (map t_id (transactions s));
                           s1 = s\<lparr>transactions := transactions s @
                                    [\<lparr>t_id = i, t_user_id = u_id usr, t_book_id = bid,
                                      t_issue_date = today, t_due_date = Some due_date,
                                      t_return_date = None, t_returned = 0\<rparr>],
                                  seq_transactions := i\<rparr>
                       in (Inr (True, PNone),
                           s1\<lparr>books := map (\<lambda>b. if b_id b = bid
                                      then b\<lparr>b_available_count :=
                                               sql_minus_one (b_available_count b)\<rparr>
                                      else b) (books s1)\<rparr>)))))"

definition return_book :: "string \<Rightarrow> int \<Rightarrow> db \<Rightarrow> reply \<times> db" where
  "return_book today tid s =
     (case find (\<lambda>t. t_id t = tid) (transactions s) of
        None \<Rightarrow> (Inr (False, PStr ''Transaction not found''), s)
      | Some tx \<Rightarrow>
         if t_returned tx \<noteq> 0
         then (Inr (False, PStr ''Already returned''), s)
         else (Inr (True, PNone),
               s\<lparr>transactions := map (\<lambda>t. if t_id t = tid
                                  then t\<lparr>t_return_date := Some today, t_returned := 1\<rparr>
                                  else t) (transactions s),
                 books := map (\<lambda>b. if b_id b = t_book_id tx
                                  then b\<lparr>b_available_count :=
                                           sql_plus_one (b_available_count b)\<rparr>
                                  else b) (books s)\<rparr>))"

text \<open>
  A row of \<^verbatim>\<open>list_transactions\<close>: the columns of the transaction, then \<^verbatim>\<open>username\<close> and
  \<^verbatim>\<open>book_title\<close>.
\<close>

record tx_view =
  tv_tx :: trans
  tv_username :: string
  tv_book_title :: string

text \<open>
  \<^verbatim>\<open>transactions t JOIN users u ON t.user_id=u.id JOIN books b ON t.book_id=b.id\<close>: an
  inner join, one row for every matching triple.
\<close>

definition joined :: "db \<Rightarrow> tx_view list" where
  "joined s =
     concat (map (\<lambda>t.
       concat (map (\<lambda>u.
         map (\<lambda>b. \<lparr>tv_tx = t, tv_username = u_username u, tv_book_title = b_title b\<rparr>)
             (filter (\<lambda>b. t_book_id t = b_id b) (books s)))
         (filter (\<lambda>u. t_user_id t = u_id u) (users s))))
       (transactions s))"

text \<open>
  \<^verbatim>\<open>ORDER BY t.issue_date DESC\<close>, as an insertion sort that keeps rows of equal date in
  their order. SQL leaves the order of such rows open; no statement below depends on it.
\<close>

fun insert_desc :: "tx_view \<Rightarrow> tx_view list \<Rightarrow> tx_view list" where
  "insert_desc x [] = [x]"
| "insert_desc x (y # ys) =
     (if t_issue_date (tv_tx y) > t_issue_date (tv_tx x) then y # insert_desc x ys
      else x # y # ys)"

definition order_by_issue_date_desc :: "tx_view list \<Rightarrow> tx_view list" where
  "order_by_issue_date_desc rows = foldr insert_desc rows []"

definition list_transactions :: "string option \<Rightarrow> db \<Rightarrow> tx_view list" where
  "list_transactions for_username s =
     (if truthy for_username
      then order_by_issue_date_desc
             (filter (\<lambda>r. tv_username r = the for_username) (joined s))
      else order_by_issue_date_desc (joined s))"

section \<open>Reachable stores and example stores\<close>



text \<open>The store after the first run.\<close>

definition fresh_db :: db where
  "fresh_db =
     \<lparr>users = [\<lparr>u_id = 1, u_username = ''admin'', u_password = ''admin'', u_role = ''admin''\<rparr>],
      books = [], members = [], transactions = [],
      seq_users = 1, seq_books = 0, seq_members = 0, seq_transactions = 0\<rparr>"

text \<open>
  The store of the example scenario of the specification: one copy of "Dune" and the
  member "a@b.com", before and after the book is issued to that member.
\<close>

definition demo_db :: db where
  "demo_db =
     \<lparr>users = [\<lparr>u_id = 1, u_username = ''admin'', u_password = ''admin'', u_role = ''admin''\<rparr>,
               \<lparr>u_id = 2, u_username = ''a@b.com'', u_password = ''pw'', u_role = ''user''\<rparr>],
      books = [\<lparr>b_id = 1, b_title = ''Dune'', b_author = ''Herbert'', b_genre = ''Sci-Fi'',
                b_available_count = 1\<rparr>],
      members = [\<lparr>m_id = 1, m_name = ''A'', m_email = ''a@b.com'', m_password = ''pw'',
                  m_membership_type = None, m_membership_expiry = None\<rparr>],
      transactions = [],
      seq_users = 2, seq_books = 1, seq_members = 1, seq_transactions = 0\<rparr>"

definition demo_issued :: db where
  "demo_issued =
     demo_db\<lparr>books := [\<lparr>b_id = 1, b_title = ''Dune'', b_author = ''Herbert'',
                          b_genre = ''Sci-Fi'', b_available_count = 0\<rparr>],
             transactions := [\<lparr>t_id = 1, t_user_id = 2, t_book_id = 1,
                                t_issue_date = ''2024-03-01'', t_due_date = Some ''2024-03-15'',
                                t_return_date = None, t_returned = 0\<rparr>],
             seq_transactions := 1\<rparr>"

text \<open>
  The store \<open>demo_issued\<close> after \<^verbatim>\<open>update_book\<close> has set the count of the book to
  \<open>2 ^ 63 - 1\<close> and the loan was returned: the count is now the \<^verbatim>\<open>REAL\<close> \<open>2 ^ 63\<close>.
  Then that store after the book was issued once more.
\<close>

definition demo_full :: db where
  "demo_full =
     demo_db\<lparr>books := [\<lparr>b_id = 1, b_title = ''Dune'', b_author = ''Herbert'',
                          b_genre = ''Sci-Fi'', b_available_count = 9223372036854775808\<rparr>],
             transactions := [\<lparr>t_id = 1, t_user_id = 2, t_book_id = 1,
                                t_issue_date = ''2024-03-01'', t_due_date = Some ''2024-03-15'',
                                t_return_date = Some ''2024-03-09'', t_returned = 1\<rparr>],
             seq_transactions := 1\<rparr>"

definition demo_full_issued :: db where
  "demo_full_issued =
     demo_full\<lparr>transactions :=
                 [\<lparr>t_id = 1, t_user_id = 2, t_book_id = 1,
                   t_issue_date = ''2024-03-01'', t_due_date = Some ''2024-03-15'',
                   t_return_date = Some ''2024-03-09'', t_returned = 1\<rparr>,
                  \<lparr>t_id = 2, t_user_id = 2, t_book_id = 1,
                   t_issue_date = ''2024-03-10'', t_due_date = Some ''2024-03-24'',
                   t_return_date = None, t_returned = 0\<rparr>],
               seq_transactions := 2\<rparr>"


text \<open>
  The store after the loan of \<open>demo_issued\<close> was returned and the book then deleted: the
  transaction row stays, the book row it refers to is gone.
\<close>

definition demo_book_gone :: db where
  "demo_book_gone =
     demo_db\<lparr>books := [],
             transactions := [\<lparr>t_id = 1, t_user_id = 2, t_book_id = 1,
                                t_issue_date = ''2024-03-01'', t_due_date = Some ''2024-03-15'',
                                t_return_date = Some ''2024-03-09'', t_returned = 1\<rparr>],
             seq_transactions := 1\<rparr>"



section \<open>Auxiliary facts about lookups and row counters\<close>

lemma find_map_upd:
  assumes "\<And>x. key (f x) = key x"
  shows "find (\<lambda>x. key x = j) (map (\<lambda>x. if key x = k then f x else x) xs)
         = (if j = k then map_option f (find (\<lambda>x. key x = k) xs)
            else find (\<lambda>x. key x = j) xs)"
  using assms by (induction xs) auto

lemma find_Some_mem: "find P xs = Some x \<Longrightarrow> x \<in> set xs \<and> P x"
  by (induction xs) (auto split: if_splits)

lemma find_None_set: "find P xs = None \<longleftrightarrow> (\<forall>x\<in>set xs. \<not> P x)"
  by (induction xs) auto


lemma find_fresh_last:
  assumes "\<And>x. x \<in> set xs \<Longrightarrow> key x \<noteq> key y"
  shows "find (\<lambda>x. key x = key y) (xs @ [y]) = Some y"
  using assms by (induction xs) auto

lemma next_rowid_fresh: "i \<in> set ids \<Longrightarrow> i < next_rowid sq ids"
proof -
  assume "i \<in> set ids"
  then have "i \<le> Max (insert sq (set ids))" by (intro Max_ge) auto
  then show ?thesis by (simp add: next_rowid_def)
qed

lemma plus_minus_one: "0 < c \<Longrightarrow> sql_plus_one (sql_minus_one c) = c"
  by (simp add: sql_plus_one_def sql_minus_one_def int64_def)

lemma key_unique:
  assumes "distinct (map key xs)" and "x \<in> set xs" and "y \<in> set xs" and "key x = key y"
  shows "x = y"
proof -
  from assms(1) have "inj_on key (set xs)" by (simp only: distinct_map)
  from inj_onD[OF this assms(4) assms(2) assms(3)] show ?thesis .
qed


section \<open>First-run initialisation\<close>

text \<open>
  C9. Initialising the Database where no store file exists yields a users table with
  exactly one row of role admin, and that row has username "admin" and password "admin".
\<close>

theorem fresh_store_has_one_default_admin:
  "\<exists>s. Database_init None = Inr s
     \<and> filter (\<lambda>u. u_role u = ''admin'') (users s)
         = [\<lparr>u_id = 1, u_username = ''admin'', u_password = ''admin'', u_role = ''admin''\<rparr>]
     \<and> users s = [\<lparr>u_id = 1, u_username = ''admin'', u_password = ''admin'', u_role = ''admin''\<rparr>]"
  by (simp add: Database_init_def ensure_admin_def insert_user_def create_tables_def
      migrate_schema_def empty_db_def next_rowid_def)



section \<open>Adding a member\<close>

text \<open>
  C1. A call of \<^verbatim>\<open>add_member\<close> that returns success should leave a mirrored user with
  username = email and role user, and should not leave a member row without it. On the
  first-run store, adding a member whose email is "admin" returns \<^verbatim>\<open>(True, None)\<close>, commits
  the member row, and creates no user: the only user named "admin" is the administrator.
\<close>

theorem add_member_leaves_member_without_user:
  "add_member ''A'' ''admin'' ''pw'' None None fresh_db =
     (Inr (True, PNone),
      fresh_db\<lparr>members := [\<lparr>m_id = 1, m_name = ''A'', m_email = ''admin'', m_password = ''pw'',
                             m_membership_type = None, m_membership_expiry = None\<rparr>],
               seq_members := 1\<rparr>)
   \<and> find (\<lambda>u. u_username u = ''admin'' \<and> u_role u = ''user'')
        (users (snd (add_member ''A'' ''admin'' ''pw'' None None fresh_db))) = None
   \<and> add_user ''admin'' ''pw'' ''user'' fresh_db
       = (Inr (False, PStr ''Username already exists''), fresh_db)"
  by (simp add: add_member_def add_user_def insert_user_def fresh_db_def next_rowid_def)

section \<open>Issuing and returning\<close>

text \<open>
  C2, as the code has it. For an existing user and a book whose available_count is 0 or
  less, \<^verbatim>\<open>issue_book\<close> fails with "No copies available" and leaves the whole store as it
  was. Conversely, when \<^verbatim>\<open>issue_book\<close> succeeds the book had available_count > 0, every
  other book is as before, exactly one transaction row was appended, with returned = 0,
  and users and members are unchanged. The count of the book is one less afterwards when
  it was a 64-bit integer, that is below \<open>2 ^ 63\<close>. A count that has overflowed to the
  \<^verbatim>\<open>REAL\<close> \<open>2 ^ 63\<close> stays as it is, and the call succeeds all the same.
\<close>

theorem issue_book_needs_a_copy:
  "(get_user_by_username un s = Some usr \<and> get_book bid s = Some b \<and> b_available_count b \<le> 0
      \<longrightarrow> issue_book today due un bid days s = (Inr (False, PStr ''No copies available''), s))
   \<and> (issue_book today due un bid days s = (Inr (True, PNone), s')
      \<longrightarrow> (\<exists>usr b tx. get_user_by_username un s = Some usr \<and> get_book bid s = Some b
            \<and> 0 < b_available_count b
            \<and> (b_available_count b < 2 ^ 63
                 \<longrightarrow> get_book bid s' = Some (b\<lparr>b_available_count := b_available_count b - 1\<rparr>))
            \<and> (2 ^ 63 \<le> b_available_count b \<longrightarrow> get_book bid s' = Some b)
            \<and> (\<forall>j. j \<noteq> bid \<longrightarrow> get_book j s' = get_book j s)
            \<and> transactions s' = transactions s @ [tx]
            \<and> t_returned tx = 0 \<and> t_user_id tx = u_id usr \<and> t_book_id tx = bid
            \<and> t_issue_date tx = today \<and> t_return_date tx = None
            \<and> users s' = users s \<and> members s' = members s))"
proof (intro conjI impI)
  assume "get_user_by_username un s = Some usr \<and> get_book bid s = Some b
    \<and> b_available_count b \<le> 0"
  then show "issue_book today due un bid days s = (Inr (False, PStr ''No copies available''), s)"
    by (simp add: issue_book_def get_book_def)
next
  assume ok: "issue_book today due un bid days s = (Inr (True, PNone), s')"
  then obtain usr where u: "get_user_by_username un s = Some usr"
    by (cases "get_user_by_username un s") (auto simp: issue_book_def)
  from ok u obtain b where b: "find (\<lambda>b. b_id b = bid) (books s) = Some b"
    by (cases "find (\<lambda>b. b_id b = bid) (books s)") (auto simp: issue_book_def)
  from ok u b have pos: "0 < b_available_count b"
    by (auto simp: issue_book_def split: if_splits)
  from ok u b pos obtain d where d: "due days = Some d"
    by (cases "due days") (auto simp: issue_book_def)
  define tx where "tx = \<lparr>t_id = next_rowid (seq_transactions s) (map t_id (transactions s)),
      t_user_id = u_id usr, t_book_id = bid, t_issue_date = today, t_due_date = Some d,
      t_return_date = None, t_returned = 0\<rparr>"
  from ok u b pos d have s': "s' = s\<lparr>transactions := transactions s @ [tx],
      seq_transactions := t_id tx,
      books := map (\<lambda>b. if b_id b = bid
                         then b\<lparr>b_available_count := sql_minus_one (b_available_count b)\<rparr>
                         else b) (books s)\<rparr>"
    by (simp add: issue_book_def Let_def tx_def)
  have look: "get_book j s' =
      (if j = bid
       then map_option (\<lambda>b. b\<lparr>b_available_count := sql_minus_one (b_available_count b)\<rparr>)
              (get_book bid s)
       else get_book j s)" for j
    unfolding get_book_def s'
    using find_map_upd[of b_id "\<lambda>b. b\<lparr>b_available_count := sql_minus_one (b_available_count b)\<rparr>"
        j bid "books s"]
    by simp
  have small: "b_available_count b < 2 ^ 63
      \<longrightarrow> get_book bid s' = Some (b\<lparr>b_available_count := b_available_count b - 1\<rparr>)"
    using pos b look[of bid] by (simp add: get_book_def sql_minus_one_def int64_def)
  have big: "2 ^ 63 \<le> b_available_count b \<longrightarrow> get_book bid s' = Some b"
    using b look[of bid] by (simp add: get_book_def sql_minus_one_def int64_def)
  have rest: "\<forall>j. j \<noteq> bid \<longrightarrow> get_book j s' = get_book j s"
    by (simp add: look)
  show "\<exists>usr b tx. get_user_by_username un s = Some usr \<and> get_book bid s = Some b
            \<and> 0 < b_available_count b
            \<and> (b_available_count b < 2 ^ 63
                 \<longrightarrow> get_book bid s' = Some (b\<lparr>b_available_count := b_available_count b - 1\<rparr>))
            \<and> (2 ^ 63 \<le> b_available_count b \<longrightarrow> get_book bid s' = Some b)
            \<and> (\<forall>j. j \<noteq> bid \<longrightarrow> get_book j s' = get_book j s)
            \<and> transactions s' = transactions s @ [tx]
            \<and> t_returned tx = 0 \<and> t_user_id tx = u_id usr \<and> t_book_id tx = bid
            \<and> t_issue_date tx = today \<and> t_return_date tx = None
            \<and> users s' = users s \<and> members s' = members s"
    using u b pos small big rest
    by (intro exI[of _ usr] exI[of _ b] exI[of _ tx]) (simp add: get_book_def s' tx_def)
qed

lemma demo_issue:
  "issue_book ''2024-03-01'' (\<lambda>d. Some ''2024-03-15'') ''a@b.com'' 1 14 demo_db
     = (Inr (True, PNone), demo_issued)"
  by (simp add: issue_book_def get_user_by_username_def demo_db_def demo_issued_def
      next_rowid_def sql_minus_one_def int64_def)

theorem issue_book_needs_a_copy_witness:
  "issue_book ''2024-03-01'' (\<lambda>d. Some ''2024-03-15'') ''a@b.com'' 1 14 demo_issued
     = (Inr (False, PStr ''No copies available''), demo_issued)
   \<and> issue_book ''2024-03-01'' (\<lambda>d. Some ''2024-03-15'') ''a@b.com'' 1 14 demo_db
     = (Inr (True, PNone), demo_issued)
   \<and> map b_available_count (books demo_db) = [1]
   \<and> map b_available_count (books demo_issued) = [0]
   \<and> map t_returned (transactions demo_issued) = [0]"
proof -
  have h: "get_user_by_username ''a@b.com'' demo_issued
             = Some \<lparr>u_id = 2, u_username = ''a@b.com'', u_password = ''pw'', u_role = ''user''\<rparr>
         \<and> get_book 1 demo_issued
             = Some \<lparr>b_id = 1, b_title = ''Dune'', b_author = ''Herbert'', b_genre = ''Sci-Fi'',
                     b_available_count = 0\<rparr>
         \<and> b_available_count \<lparr>b_id = 1, b_title = ''Dune'', b_author = ''Herbert'',
             b_genre = ''Sci-Fi'', b_available_count = 0\<rparr> \<le> 0"
    by (simp add: get_user_by_username_def get_book_def demo_issued_def demo_db_def)
  note no = issue_book_needs_a_copy[THEN conjunct1, THEN mp, OF h]
  show ?thesis
    using no[of "''2024-03-01''" "\<lambda>d. Some ''2024-03-15''" 14] demo_issue
    by (simp add: demo_db_def demo_issued_def)
qed

lemma demo_full_built:
  "snd (return_book ''2024-03-09'' 1
          (update_book 1 ''Dune'' ''Herbert'' ''Sci-Fi'' 9223372036854775807 demo_issued))
     = demo_full"
  by (simp add: return_book_def update_book_def demo_issued_def demo_db_def demo_full_def
      sql_plus_one_def int64_def)

lemma demo_full_issue:
  "issue_book ''2024-03-10'' (\<lambda>d. Some ''2024-03-24'') ''a@b.com'' 1 14 demo_full
     = (Inr (True, PNone), demo_full_issued)"
  by (simp add: issue_book_def get_user_by_username_def demo_db_def demo_full_def
      demo_full_issued_def next_rowid_def sql_minus_one_def int64_def)

text \<open>
  C2 as the specification words it fails on the store \<open>demo_full\<close>, which the program
  builds from \<open>demo_issued\<close> by setting the count to \<open>2 ^ 63 - 1\<close> and returning the
  loan: \<^verbatim>\<open>issue_book\<close> succeeds there and the count is the same before and after.
\<close>

theorem issue_book_no_decrement_counterexample:
  "snd (return_book ''2024-03-09'' 1
          (update_book 1 ''Dune'' ''Herbert'' ''Sci-Fi'' 9223372036854775807 demo_issued))
     = demo_full
   \<and> issue_book ''2024-03-10'' (\<lambda>d. Some ''2024-03-24'') ''a@b.com'' 1 14 demo_full
     = (Inr (True, PNone), demo_full_issued)
   \<and> map b_available_count (books demo_full) = [9223372036854775808]
   \<and> map b_available_count (books demo_full_issued) = [9223372036854775808]"
proof -
  have "map b_available_count (books demo_full) = [9223372036854775808]"
    by (simp add: demo_full_def)
  moreover have "map b_available_count (books demo_full_issued) = [9223372036854775808]"
    by (simp add: demo_full_issued_def demo_full_def)
  ultimately show ?thesis using demo_full_built demo_full_issue by simp
qed




text \<open>
  C4. For an existing user and a book with available_count > 0, a successful
  \<^verbatim>\<open>issue_book\<close> followed at once by \<^verbatim>\<open>return_book\<close> on the transaction it created succeeds
  and restores the available_count of the book. Every lookup of a book by its id gives
  what it gave before the two calls, and where the ids of the books table are distinct,
  as its primary key makes them, the whole books table is as before.
\<close>

theorem issue_then_return_restores_count:
  assumes "get_user_by_username un s = Some usr"
    and "get_book bid s = Some b"
    and "0 < b_available_count b"
    and "issue_book today due un bid days s = (Inr (True, PNone), s1)"
  shows "\<exists>tx s2. transactions s1 = transactions s @ [tx]
           \<and> return_book today' (t_id tx) s1 = (Inr (True, PNone), s2)
           \<and> (distinct (map b_id (books s)) \<longrightarrow> books s2 = books s)
           \<and> (\<forall>j. get_book j s2 = get_book j s)
           \<and> map_option b_available_count (get_book bid s2) = Some (b_available_count b)"
proof -
  let ?dec = "\<lambda>b. b\<lparr>b_available_count := sql_minus_one (b_available_count b)\<rparr>"
  let ?inc = "\<lambda>b. b\<lparr>b_available_count := sql_plus_one (b_available_count b)\<rparr>"
  from assms obtain d where d: "due days = Some d"
    by (cases "due days") (auto simp: issue_book_def get_book_def)
  define tx where "tx = \<lparr>t_id = next_rowid (seq_transactions s) (map t_id (transactions s)),
      t_user_id = u_id usr, t_book_id = bid, t_issue_date = today, t_due_date = Some d,
      t_return_date = None, t_returned = 0\<rparr>"
  from assms d have s1: "s1 = s\<lparr>transactions := transactions s @ [tx],
      seq_transactions := t_id tx,
      books := map (\<lambda>b. if b_id b = bid then ?dec b else b) (books s)\<rparr>"
    by (simp add: issue_book_def get_book_def Let_def tx_def)
  have "t_id x \<noteq> t_id tx" if "x \<in> set (transactions s)" for x
    using next_rowid_fresh[of "t_id x" "map t_id (transactions s)" "seq_transactions s"] that
    by (auto simp: tx_def)
  then have f: "find (\<lambda>t. t_id t = t_id tx) (transactions s @ [tx]) = Some tx"
    by (rule find_fresh_last)
  define s2 where "s2 = snd (return_book today' (t_id tx) s1)"
  have r: "return_book today' (t_id tx) s1 = (Inr (True, PNone), s2)"
    unfolding s2_def by (simp add: return_book_def s1 f) (simp add: tx_def)
  have b2: "books s2
      = map (\<lambda>b. if b_id b = bid then ?inc b else b)
          (map (\<lambda>b. if b_id b = bid then ?dec b else b) (books s))"
    unfolding s2_def by (simp add: return_book_def s1 f) (simp add: tx_def)
  from assms(2) have fb: "find (\<lambda>b. b_id b = bid) (books s) = Some b"
    by (simp add: get_book_def)
  have undo: "?inc (?dec b) = b"
    using assms(3) by (simp add: plus_minus_one)
  have look: "get_book j s2 = get_book j s" for j
  proof -
    have "find (\<lambda>b. b_id b = j) (books s2)
        = (if j = bid
           then map_option ?inc (map_option ?dec (find (\<lambda>b. b_id b = bid) (books s)))
           else find (\<lambda>b. b_id b = j) (books s))"
      unfolding b2
      using find_map_upd[of b_id ?inc j bid "map (\<lambda>b. if b_id b = bid then ?dec b else b) (books s)"]
        find_map_upd[of b_id ?dec j bid "books s"] find_map_upd[of b_id ?dec bid bid "books s"]
      by simp
    then show ?thesis using fb undo by (simp add: get_book_def)
  qed
  have table: "books s2 = books s" if dist: "distinct (map b_id (books s))"
  proof -
    have "(if b_id x = bid then ?inc (if b_id x = bid then ?dec x else x) else x) = x"
      if x: "x \<in> set (books s)" for x
    proof (cases "b_id x = bid")
      case True
      from fb have "b \<in> set (books s)" "b_id b = bid" by (auto dest: find_Some_mem)
      with True x dist have "x = b" by (intro key_unique[of b_id "books s"]) simp_all
      with True undo show ?thesis by simp
    next
      case False
      then show ?thesis by simp
    qed
    then have "map (\<lambda>x. if b_id x = bid then ?inc (if b_id x = bid then ?dec x else x) else x)
                 (books s) = books s"
      by (intro map_idI) simp
    moreover have "books s2
        = map (\<lambda>x. if b_id x = bid then ?inc (if b_id x = bid then ?dec x else x) else x) (books s)"
      unfolding b2 by (simp add: comp_def)
    ultimately show ?thesis by simp
  qed
  show ?thesis
    using r table look assms(2)
    by (intro exI[of _ tx] exI[of _ s2]) (simp add: s1)
qed

theorem issue_then_return_restores_count_witness:
  "get_book 1 demo_db
     = Some \<lparr>b_id = 1, b_title = ''Dune'', b_author = ''Herbert'', b_genre = ''Sci-Fi'',
             b_available_count = 1\<rparr>
   \<and> (\<exists>tx s2. transactions demo_issued = transactions demo_db @ [tx]
         \<and> return_book ''2024-03-09'' (t_id tx) demo_issued = (Inr (True, PNone), s2)
         \<and> books s2 = books demo_db
         \<and> map_option b_available_count (get_book 1 s2) = Some 1)"
proof -
  have u: "get_user_by_username ''a@b.com'' demo_db
             = Some \<lparr>u_id = 2, u_username = ''a@b.com'', u_password = ''pw'', u_role = ''user''\<rparr>"
    by (simp add: get_user_by_username_def demo_db_def)
  have b: "get_book 1 demo_db
     = Some \<lparr>b_id = 1, b_title = ''Dune'', b_author = ''Herbert'', b_genre = ''Sci-Fi'',
             b_available_count = 1\<rparr>"
    by (simp add: get_book_def demo_db_def)
  have p: "0 < b_available_count \<lparr>b_id = 1, b_title = ''Dune'', b_author = ''Herbert'',
             b_genre = ''Sci-Fi'', b_available_count = 1\<rparr>"
    by simp
  have dist: "distinct (map b_id (books demo_db))"
    by (simp add: demo_db_def)
  from issue_then_return_restores_count[OF u b p demo_issue, of "''2024-03-09''"] b dist
  show ?thesis by auto
qed

section \<open>Deleting books and members\<close>

text \<open>
  C6. Deleting a book while a transaction with returned = 0 refers to it, and deleting a
  member while a transaction with returned = 0 refers to the member's mirrored user (the
  user whose username is the member's email), both fail with the "active issues" result
  of the method and leave the whole store as it was.
\<close>

theorem delete_refused_while_on_loan:
  "((\<exists>t \<in> set (transactions s). t_book_id t = bid \<and> t_returned t = 0)
      \<longrightarrow> delete_book bid s = (Inr (False, PStr ''Cannot delete book with active issues''), s))
   \<and> (get_member mid s = Some m \<and> get_user_by_username (m_email m) s = Some u
       \<and> (\<exists>t \<in> set (transactions s). t_user_id t = u_id u \<and> t_returned t = 0)
      \<longrightarrow> delete_member mid s = (Inr (False, PStr ''Member has active issued books''), s))"
  by (auto simp: delete_book_def delete_member_def get_member_def get_user_by_username_def
      filter_empty_conv)

theorem delete_refused_while_on_loan_witness:
  "(\<exists>t \<in> set (transactions demo_issued). t_book_id t = 1 \<and> t_returned t = 0)
   \<and> delete_book 1 demo_issued
       = (Inr (False, PStr ''Cannot delete book with active issues''), demo_issued)
   \<and> delete_member 1 demo_issued
       = (Inr (False, PStr ''Member has active issued books''), demo_issued)"
proof -
  have h1: "\<exists>t \<in> set (transactions demo_issued). t_book_id t = 1 \<and> t_returned t = 0"
    by (simp add: demo_issued_def)
  have h2: "get_member 1 demo_issued
              = Some \<lparr>m_id = 1, m_name = ''A'', m_email = ''a@b.com'', m_password = ''pw'',
                      m_membership_type = None, m_membership_expiry = None\<rparr>
          \<and> get_user_by_username
              (m_email \<lparr>m_id = 1, m_name = ''A'', m_email = ''a@b.com'', m_password = ''pw'',
                        m_membership_type = None, m_membership_expiry = None\<rparr>) demo_issued
              = Some \<lparr>u_id = 2, u_username = ''a@b.com'', u_password = ''pw'', u_role = ''user''\<rparr>
          \<and> (\<exists>t \<in> set (transactions demo_issued).
                t_user_id t = u_id \<lparr>u_id = 2, u_username = ''a@b.com'', u_password = ''pw'',
                                     u_role = ''user''\<rparr> \<and> t_returned t = 0)"
    by (simp add: get_member_def get_user_by_username_def demo_issued_def demo_db_def)
  from delete_refused_while_on_loan[THEN conjunct1, THEN mp, OF h1]
    delete_refused_while_on_loan[THEN conjunct2, THEN mp, OF h2] h1
  show ?thesis by simp
qed

subsection \<open>No loan that is out refers to a missing book\<close>















section \<open>Searching the books\<close>







section \<open>Listing the transactions\<close>

lemma mset_insert_desc: "mset (insert_desc x xs) = add_mset x (mset xs)"
  by (induction xs) auto

lemma set_insert_desc: "set (insert_desc x xs) = insert x (set xs)"
  by (induction xs) auto

lemma sorted_insert_desc:
  "sorted_wrt (\<lambda>a b. t_issue_date (tv_tx b) \<le> t_issue_date (tv_tx a)) xs
   \<Longrightarrow> sorted_wrt (\<lambda>a b. t_issue_date (tv_tx b) \<le> t_issue_date (tv_tx a)) (insert_desc x xs)"
proof (induction xs)
  case Nil
  then show ?case by simp
next
  case (Cons y ys)
  show ?case
  proof (cases "t_issue_date (tv_tx y) > t_issue_date (tv_tx x)")
    case True
    with Cons show ?thesis by (auto simp: set_insert_desc)
  next
    case False
    then have "t_issue_date (tv_tx y) \<le> t_issue_date (tv_tx x)" by simp
    with Cons.prems False show ?thesis by fastforce
  qed
qed

lemma mset_order_by: "mset (order_by_issue_date_desc rows) = mset rows"
  unfolding order_by_issue_date_desc_def by (induction rows) (simp_all add: mset_insert_desc)

lemma set_order_by: "set (order_by_issue_date_desc rows) = set rows"
  unfolding order_by_issue_date_desc_def by (induction rows) (simp_all add: set_insert_desc)

lemma sorted_order_by:
  "sorted_wrt (\<lambda>a b. t_issue_date (tv_tx b) \<le> t_issue_date (tv_tx a))
     (order_by_issue_date_desc rows)"
  unfolding order_by_issue_date_desc_def by (induction rows) (simp_all add: sorted_insert_desc)

lemma mset_tx_order_by:
  "mset (map tv_tx (order_by_issue_date_desc rows)) = mset (map tv_tx rows)"
proof -
  have "mset (map tv_tx (order_by_issue_date_desc rows))
          = image_mset tv_tx (mset (order_by_issue_date_desc rows))"
    by simp
  also have "\<dots> = image_mset tv_tx (mset rows)" by (simp only: mset_order_by)
  also have "\<dots> = mset (map tv_tx rows)" by simp
  finally show ?thesis .
qed

lemma joined_mem:
  "r \<in> set (joined s) \<longleftrightarrow>
     (\<exists>t u b. t \<in> set (transactions s) \<and> u \<in> set (users s) \<and> b \<in> set (books s)
       \<and> t_user_id t = u_id u \<and> t_book_id t = b_id b
       \<and> r = \<lparr>tv_tx = t, tv_username = u_username u, tv_book_title = b_title b\<rparr>)"
  unfolding joined_def set_concat set_map image_image UN_iff set_filter mem_Collect_eq image_iff
    bex_simps
  by blast

text \<open>A primary key selects at most one row.\<close>

lemma filter_key_distinct:
  assumes "distinct (map key xs)"
  shows "filter (\<lambda>x. k = key x) xs
           = (case find (\<lambda>x. key x = k) xs of None \<Rightarrow> [] | Some x \<Rightarrow> [x])"
  using assms
proof (induction xs)
  case Nil
  show ?case by simp
next
  case (Cons a xs)
  show ?case
  proof (cases "key a = k")
    case True
    from Cons.prems have "key a \<notin> key ` set xs" by simp
    with True have "\<forall>x\<in>set xs. k \<noteq> key x" by blast
    then have "filter (\<lambda>x. k = key x) xs = []" by (simp add: filter_empty_conv)
    with True show ?thesis by simp
  next
    case False
    moreover from Cons.prems have "distinct (map key xs)" by simp
    ultimately show ?thesis using Cons.IH by auto
  qed
qed

lemma joined_tx_rows:
  assumes du: "distinct (map u_id (users s))" and dk: "distinct (map b_id (books s))"
  shows "map tv_tx (filter (\<lambda>r. p (tv_username r)) (joined s))
       = filter (\<lambda>t. \<exists>u\<in>set (users s). \<exists>b\<in>set (books s).
                      u_id u = t_user_id t \<and> b_id b = t_book_id t \<and> p (u_username u))
           (transactions s)"
proof -
  define R where "R = (\<lambda>t.
       concat (map (\<lambda>u.
         map (\<lambda>b. \<lparr>tv_tx = t, tv_username = u_username u, tv_book_title = b_title b\<rparr>)
             (filter (\<lambda>b. t_book_id t = b_id b) (books s)))
         (filter (\<lambda>u. t_user_id t = u_id u) (users s))))"
  define Q where "Q = (\<lambda>t::trans. \<exists>u\<in>set (users s). \<exists>b\<in>set (books s).
                      u_id u = t_user_id t \<and> b_id b = t_book_id t \<and> p (u_username u))"
  have row: "map tv_tx (filter (\<lambda>r. p (tv_username r)) (R t)) = (if Q t then [t] else [])" for t
  proof (cases "find (\<lambda>u. u_id u = t_user_id t) (users s)")
    case None
    then have "\<forall>u\<in>set (users s). u_id u \<noteq> t_user_id t" by (simp add: find_None_set)
    then have "\<not> Q t" unfolding Q_def by blast
    moreover have "R t = []"
      unfolding R_def filter_key_distinct[OF du] None by simp
    ultimately show ?thesis by simp
  next
    case (Some u)
    then have u: "u \<in> set (users s)" "u_id u = t_user_id t" by (auto dest: find_Some_mem)
    show ?thesis
    proof (cases "find (\<lambda>b. b_id b = t_book_id t) (books s)")
      case None
      then have "\<forall>b\<in>set (books s). b_id b \<noteq> t_book_id t" by (simp add: find_None_set)
      then have "\<not> Q t" unfolding Q_def by blast
      moreover have "R t = []"
        unfolding R_def filter_key_distinct[OF du] filter_key_distinct[OF dk] Some None by simp
      ultimately show ?thesis by simp
    next
      case b: (Some b)
      then have bm: "b \<in> set (books s)" "b_id b = t_book_id t" by (auto dest: find_Some_mem)
      have Rt: "R t = [\<lparr>tv_tx = t, tv_username = u_username u, tv_book_title = b_title b\<rparr>]"
        unfolding R_def filter_key_distinct[OF du] filter_key_distinct[OF dk] Some b by simp
      have "Q t \<longleftrightarrow> p (u_username u)"
      proof
        assume "Q t"
        then obtain u' where u': "u' \<in> set (users s)" "u_id u' = t_user_id t" "p (u_username u')"
          unfolding Q_def by blast
        from u'(2) u(2) have "u_id u' = u_id u" by simp
        with du u'(1) u(1) have "u' = u" by (rule key_unique)
        with u'(3) show "p (u_username u)" by simp
      next
        assume "p (u_username u)"
        with u bm show "Q t" unfolding Q_def by blast
      qed
      with Rt show ?thesis by simp
    qed
  qed
  have gen: "map tv_tx (filter (\<lambda>r. p (tv_username r)) (concat (map R ts))) = filter Q ts" for ts
    by (induction ts) (simp_all add: row)
  have "joined s = concat (map R (transactions s))"
    unfolding joined_def R_def ..
  then show ?thesis using gen[of "transactions s"] unfolding Q_def by simp
qed

text \<open>
  C7, as the code has it. In a store whose user ids and book ids are primary keys:
  for a non-empty username X, \<^verbatim>\<open>list_transactions(X)\<close> returns one row for each
  transaction whose user row exists with username X and whose book row exists, and no
  other row; with no argument, and also for the empty string, it returns one row for each
  transaction whose user row and book row both exist. A transaction whose user or book was
  deleted has no row. The rows are in descending order of issue_date, and each carries
  the username of its user and the title of its book.
\<close>

theorem list_transactions_rows:
  assumes "distinct (map u_id (users s))" and "distinct (map b_id (books s))"
  shows "(X \<noteq> [] \<longrightarrow>
           mset (map tv_tx (list_transactions (Some X) s))
             = mset (filter (\<lambda>t. \<exists>u\<in>set (users s). \<exists>b\<in>set (books s).
                          u_id u = t_user_id t \<and> b_id b = t_book_id t \<and> u_username u = X)
                       (transactions s)))
       \<and> mset (map tv_tx (list_transactions None s))
             = mset (filter (\<lambda>t. \<exists>u\<in>set (users s). \<exists>b\<in>set (books s).
                          u_id u = t_user_id t \<and> b_id b = t_book_id t) (transactions s))
       \<and> list_transactions (Some []) s = list_transactions None s
       \<and> sorted_wrt (\<lambda>a b. t_issue_date (tv_tx b) \<le> t_issue_date (tv_tx a))
           (list_transactions fu s)
       \<and> (\<forall>r \<in> set (list_transactions fu s). \<exists>u\<in>set (users s). \<exists>b\<in>set (books s).
             u_id u = t_user_id (tv_tx r) \<and> b_id b = t_book_id (tv_tx r)
             \<and> tv_username r = u_username u \<and> tv_book_title r = b_title b)"
proof (intro conjI impI ballI)
  assume X: "X \<noteq> []"
  then have "list_transactions (Some X) s
               = order_by_issue_date_desc (filter (\<lambda>r. tv_username r = X) (joined s))"
    by (simp add: list_transactions_def)
  then show "mset (map tv_tx (list_transactions (Some X) s))
             = mset (filter (\<lambda>t. \<exists>u\<in>set (users s). \<exists>b\<in>set (books s).
                          u_id u = t_user_id t \<and> b_id b = t_book_id t \<and> u_username u = X)
                       (transactions s))"
    using joined_tx_rows[OF assms, of "\<lambda>n. n = X"] by (simp only: mset_tx_order_by)
next
  have "list_transactions None s = order_by_issue_date_desc (joined s)"
    by (simp add: list_transactions_def)
  moreover have "map tv_tx (joined s)
       = filter (\<lambda>t. \<exists>u\<in>set (users s). \<exists>b\<in>set (books s).
                      u_id u = t_user_id t \<and> b_id b = t_book_id t) (transactions s)"
    using joined_tx_rows[OF assms, of "\<lambda>n. True"] by simp
  ultimately show "mset (map tv_tx (list_transactions None s))
             = mset (filter (\<lambda>t. \<exists>u\<in>set (users s). \<exists>b\<in>set (books s).
                          u_id u = t_user_id t \<and> b_id b = t_book_id t) (transactions s))"
    by (simp only: mset_tx_order_by)
next
  show "list_transactions (Some []) s = list_transactions None s"
    by (simp add: list_transactions_def)
next
  show "sorted_wrt (\<lambda>a b. t_issue_date (tv_tx b) \<le> t_issue_date (tv_tx a))
           (list_transactions fu s)"
    by (simp add: list_transactions_def sorted_order_by)
next
  fix r assume "r \<in> set (list_transactions fu s)"
  then have "r \<in> set (joined s)"
    by (simp add: list_transactions_def set_order_by split: if_splits)
  then obtain t u b where "t \<in> set (transactions s)" "u \<in> set (users s)" "b \<in> set (books s)"
      "t_user_id t = u_id u" "t_book_id t = b_id b"
      "r = \<lparr>tv_tx = t, tv_username = u_username u, tv_book_title = b_title b\<rparr>"
    unfolding joined_mem by blast
  then show "\<exists>u\<in>set (users s). \<exists>b\<in>set (books s).
             u_id u = t_user_id (tv_tx r) \<and> b_id b = t_book_id (tv_tx r)
             \<and> tv_username r = u_username u \<and> tv_book_title r = b_title b"
    by (intro bexI[of _ u] bexI[of _ b]) simp_all
qed

theorem list_transactions_rows_witness:
  "distinct (map u_id (users demo_issued)) \<and> distinct (map b_id (books demo_issued))
   \<and> mset (map tv_tx (list_transactions (Some ''a@b.com'') demo_issued))
       = mset (transactions demo_issued)
   \<and> map t_id (transactions demo_issued) = [1]"
proof -
  have d1: "distinct (map u_id (users demo_issued))" by (simp add: demo_issued_def demo_db_def)
  have d2: "distinct (map b_id (books demo_issued))" by (simp add: demo_issued_def demo_db_def)
  have f: "filter (\<lambda>t. \<exists>u\<in>set (users demo_issued). \<exists>b\<in>set (books demo_issued).
                u_id u = t_user_id t \<and> b_id b = t_book_id t \<and> u_username u = ''a@b.com'')
             (transactions demo_issued) = transactions demo_issued"
    by (simp add: demo_issued_def demo_db_def)
  from list_transactions_rows[OF d1 d2, of "''a@b.com''", THEN conjunct1] d1 d2 f
  show ?thesis by (simp add: demo_issued_def)
qed

lemma demo_return_delete:
  "snd (delete_book 1 (snd (return_book ''2024-03-09'' 1 demo_issued))) = demo_book_gone"
  by (simp add: delete_book_def return_book_def demo_issued_def demo_db_def demo_book_gone_def)

text \<open>
  C7 as the specification words it fails for the empty username: \<^verbatim>\<open>list_transactions("")\<close>
  on \<open>demo_issued\<close> returns the loan of "a@b.com", a row whose username is not the empty
  string. And the call with no argument does not return all transaction rows: after the
  loan was returned and the book deleted, the transactions table has one row and the
  listing is empty.
\<close>

theorem list_transactions_empty_name_counterexample:
  "list_transactions (Some '''') demo_issued
     = [\<lparr>tv_tx = \<lparr>t_id = 1, t_user_id = 2, t_book_id = 1, t_issue_date = ''2024-03-01'',
                   t_due_date = Some ''2024-03-15'', t_return_date = None, t_returned = 0\<rparr>,
         tv_username = ''a@b.com'', tv_book_title = ''Dune''\<rparr>]
   \<and> snd (delete_book 1 (snd (return_book ''2024-03-09'' 1 demo_issued))) = demo_book_gone
   \<and> map t_id (transactions demo_book_gone) = [1]
   \<and> list_transactions None demo_book_gone = []"
proof -
  have a: "list_transactions (Some '''') demo_issued
     = [\<lparr>tv_tx = \<lparr>t_id = 1, t_user_id = 2, t_book_id = 1, t_issue_date = ''2024-03-01'',
                   t_due_date = Some ''2024-03-15'', t_return_date = None, t_returned = 0\<rparr>,
         tv_username = ''a@b.com'', tv_book_title = ''Dune''\<rparr>]"
    by (simp add: list_transactions_def joined_def order_by_issue_date_desc_def
        demo_issued_def demo_db_def)
  have b: "map t_id (transactions demo_book_gone) = [1]"
    by (simp add: demo_book_gone_def)
  have c: "list_transactions None demo_book_gone = []"
    by (simp add: list_transactions_def joined_def order_by_issue_date_desc_def
        demo_book_gone_def demo_db_def)
  from a b c demo_return_delete show ?thesis by simp
qed

section \<open>Changing the email of a member\<close>






end
